theory Spec2Isabelle
  imports Main
begin

section \<open>Python strings\<close>

text \<open>
  A Python \<open>str\<close> is a sequence of Unicode code points, so a string is a list of
  natural numbers; \<open>len\<close>, \<open>in\<close>, \<open>split\<close> and \<open>strip\<close> all count code points.
  \<open>ascii\<close> reads an ASCII literal.
\<close>

type_synonym ustr = "nat list"

definition ascii :: "string \<Rightarrow> ustr" where
  "ascii s = map of_char s"

text \<open>The non-ASCII characters of the messages of \<open>app.py\<close>.\<close>

definition cross_mark :: ustr where "cross_mark = [0x274C]"
definition check_mark :: ustr where "check_mark = [0x2705]"
definition globe :: ustr where "globe = [0x1F30D]"
definition thermometer :: ustr where "thermometer = [0x1F321, 0xFE0F]"
definition sun_cloud :: ustr where "sun_cloud = [0x1F324, 0xFE0F]"
definition dash_symbol :: ustr where "dash_symbol = [0x1F4A8]"
definition droplet :: ustr where "droplet = [0x1F4A7]"
definition clock_one :: ustr where "clock_one = [0x1F550]"
definition clock_three :: ustr where "clock_three = [0x1F552]"
definition degree :: ustr where "degree = [0xB0]"
definition nl :: ustr where "nl = [10]"

text \<open>
  \<open>str.strip()\<close> without argument removes the code points for which \<open>str.isspace\<close>
  holds from both ends.
\<close>

definition isspace :: "nat \<Rightarrow> bool" where
  "isspace c \<longleftrightarrow>
     (0x9 \<le> c \<and> c \<le> 0xD) \<or> (0x1C \<le> c \<and> c \<le> 0x20) \<or> c = 0x85 \<or> c = 0xA0 \<or>
     c = 0x1680 \<or> (0x2000 \<le> c \<and> c \<le> 0x200A) \<or> c = 0x2028 \<or> c = 0x2029 \<or>
     c = 0x202F \<or> c = 0x205F \<or> c = 0x3000"

definition strip :: "ustr \<Rightarrow> ustr" where
  "strip s = rev (dropWhile isspace (rev (dropWhile isspace s)))"

text \<open>\<open>s.split(sep, 1)\<close> for a string \<open>s\<close> that contains the one-character \<open>sep\<close>.\<close>

definition split_once :: "nat \<Rightarrow> ustr \<Rightarrow> ustr \<times> ustr" where
  "split_once sep s = (takeWhile (\<lambda>c. c \<noteq> sep) s, tl (dropWhile (\<lambda>c. c \<noteq> sep) s))"

text \<open>\<open>sep.join(xs)\<close>.\<close>

fun join :: "ustr \<Rightarrow> ustr list \<Rightarrow> ustr" where
  "join sep [] = []"
| "join sep [x] = x"
| "join sep (x # y # ys) = x @ sep @ join sep (y # ys)"

text \<open>\<open>sub in s\<close>: \<open>sub\<close> occurs in \<open>s\<close> as a contiguous run.\<close>

fun str_contains :: "ustr \<Rightarrow> ustr \<Rightarrow> bool" where
  "str_contains sub [] \<longleftrightarrow> sub = []"
| "str_contains sub (c # cs) \<longleftrightarrow> take (length sub) (c # cs) = sub \<or> str_contains sub cs"

section \<open>Python values and exceptions\<close>

text \<open>
  The values \<open>json.loads\<close> produces: \<open>None\<close>, \<open>bool\<close>, \<open>int\<close>, \<open>float\<close>, \<open>str\<close>,
  \<open>list\<close> and \<open>dict\<close> (keys are strings, in insertion order). A float is held as its
  \<open>repr\<close>.
\<close>

datatype pyval =
    PNone
  | PBool bool
  | PInt int
  | PFloat ustr
  | PStr ustr
  | PList "pyval list"
  | PDict "(ustr \<times> pyval) list"

text \<open>
  A raised exception, with the class as far as the handlers of \<open>app.py\<close> tell classes
  apart, and \<open>str(e)\<close>. \<open>NotException\<close> stands for the classes that derive from
  \<open>BaseException\<close> but not from \<open>Exception\<close> (\<open>KeyboardInterrupt\<close>, \<open>SystemExit\<close>,
  \<open>asyncio.CancelledError\<close>): \<open>except Exception\<close> does not catch them.
\<close>

datatype exc_class = JSONDecodeError | OtherException | NotException

datatype exn = Exn (exc_class: exc_class) (exc_str: ustr)

definition is_Exception :: "exn \<Rightarrow> bool" where
  "is_Exception e \<longleftrightarrow> exc_class e \<noteq> NotException"

text \<open>
  The functions of the Python library whose tables and parsers are not part of the
  repository: \<open>str.lower\<close>, \<open>json.loads\<close> (raising or returning the parsed value),
  \<open>json.dumps(v, indent=2)\<close> and \<open>repr\<close> of a string.
\<close>

record pylib =
  str_lower :: "ustr \<Rightarrow> ustr"
  json_loads :: "ustr \<Rightarrow> exn + pyval"
  json_dumps :: "pyval \<Rightarrow> ustr"
  str_repr :: "ustr \<Rightarrow> ustr"

text \<open>\<open>str(i)\<close> of an integer.\<close>

fun digits :: "nat \<Rightarrow> ustr" where
  "digits n = (if n < 10 then [48 + n] else digits (n div 10) @ [48 + n mod 10])"

declare digits.simps [simp del]

definition str_int :: "int \<Rightarrow> ustr" where
  "str_int i = (if i < 0 then 45 # digits (nat (- i)) else digits (nat i))"

text \<open>
  \<open>repr(v)\<close> and \<open>str(v)\<close>; they differ on strings only. An f-string field \<open>{v}\<close>
  is \<open>format(v, '')\<close>, which is \<open>str(v)\<close> for these types.
\<close>

fun py_repr :: "pylib \<Rightarrow> pyval \<Rightarrow> ustr" where
  "py_repr L PNone = ascii ''None''"
| "py_repr L (PBool b) = (if b then ascii ''True'' else ascii ''False'')"
| "py_repr L (PInt i) = str_int i"
| "py_repr L (PFloat r) = r"
| "py_repr L (PStr s) = str_repr L s"
| "py_repr L (PList xs) = ascii ''['' @ join (ascii '', '') (map (py_repr L) xs) @ ascii '']''"
| "py_repr L (PDict kvs) =
     ascii ''{'' @
     join (ascii '', '') (map (\<lambda>kv. str_repr L (fst kv) @ ascii '': '' @ py_repr L (snd kv)) kvs) @
     ascii ''}''"

definition py_str :: "pylib \<Rightarrow> pyval \<Rightarrow> ustr" where
  "py_str L v = (case v of PStr s \<Rightarrow> s | _ \<Rightarrow> py_repr L v)"

text \<open>
  \<open>type(v).__name__\<close>, and the message of the \<open>AttributeError\<close> that \<open>v.get\<close> raises
  on a value that is not a \<open>dict\<close>.
\<close>

fun type_name :: "pyval \<Rightarrow> ustr" where
  "type_name PNone = ascii ''NoneType''"
| "type_name (PBool b) = ascii ''bool''"
| "type_name (PInt i) = ascii ''int''"
| "type_name (PFloat r) = ascii ''float''"
| "type_name (PStr s) = ascii ''str''"
| "type_name (PList xs) = ascii ''list''"
| "type_name (PDict kvs) = ascii ''dict''"

definition no_attribute :: "ustr \<Rightarrow> ustr \<Rightarrow> exn" where
  "no_attribute ty attr =
     Exn OtherException
       ([39] @ ty @ [39] @ ascii '' object has no attribute '' @ [39] @ attr @ [39])"

section \<open>The session and the remote endpoint\<close>

text \<open>
  A tool descriptor as \<open>list_tools\<close> returns it: \<open>app.py\<close> reads the name only.
\<close>

record tool =
  name :: ustr

text \<open>
  What an object offers to the attribute probing of \<open>_get_weather\<close>: a \<open>text\<close>
  attribute (a string) when it has one, a \<open>content\<close> attribute when it has one, its
  \<open>str()\<close>, and its truth value.
\<close>

record pyobj =
  obj_text :: "ustr option"
  obj_content :: "pyval option"
  obj_str :: ustr
  obj_truthy :: bool

text \<open>
  \<open>result.content\<close> is a list of items or some other object. A tool result is its
  \<open>content\<close> attribute, \<open>None\<close> when the result has no such attribute.
\<close>

datatype content = Items "pyobj list" | Single pyobj

type_synonym call_result = "content option"

text \<open>
  The context managers held by an \<open>AsyncExitStack\<close>, innermost first, and the
  \<open>ClientSession\<close> object, named by the endpoint its transport is connected to.
\<close>

datatype ctx = SseTransport ustr | SessionCtx

datatype session = ClientSession ustr

text \<open>The fields of \<open>SimpleMCPClient\<close>, as \<open>__init__\<close> sets them.\<close>

record client =
  session :: "session option"
  connected :: bool
  tools :: "tool list"
  exit_stack :: "ctx list option"
  server_url :: ustr

definition init_client :: client where
  "init_client =
     \<lparr>session = None, connected = False, tools = [], exit_stack = None,
      server_url = ascii ''https://chris4k-weather.hf.space/gradio_api/mcp/sse''\<rparr>"

text \<open>
  The awaited operations of the \<open>mcp\<close> library, in the order of their invocation.
  \<open>CallTool\<close> carries the tool name and the argument dictionary.
\<close>

datatype event =
    Aclose "ctx list"
  | SseOpen ustr
  | SessionOpen
  | Initialize
  | ListTools
  | CallTool ustr "(ustr \<times> ustr) list"

text \<open>
  How the remote endpoint and the library answer during one call of \<open>connect\<close> or
  \<open>get_weather\<close>: each awaited operation returns (\<open>None\<close>, or \<open>Inr\<close> with its value)
  or raises.
\<close>

record world =
  aclose_out :: "exn option"
  sse_client_out :: "ustr \<Rightarrow> exn option"
  client_session_out :: "exn option"
  initialize_out :: "exn option"
  list_tools_out :: "exn + tool list"
  call_tool_out :: "ustr \<Rightarrow> (ustr \<times> ustr) list \<Rightarrow> exn + call_result"

section \<open>connect\<close>

definition connected_msg :: "ustr list \<Rightarrow> ustr" where
  "connected_msg tool_names =
     check_mark @ ascii '' Connected to weather server!'' @ nl @
     ascii ''Available tools: '' @ join (ascii '', '') tool_names"

definition connection_failed_msg :: "exn \<Rightarrow> ustr" where
  "connection_failed_msg e = cross_mark @ ascii '' Connection failed: '' @ exc_str e"

text \<open>
  \<open>if self.exit_stack: await self.exit_stack.aclose()\<close>. An \<open>AsyncExitStack\<close> is
  truthy, so the test is on \<open>None\<close>; \<open>aclose\<close> leaves the stack empty also when it
  raises.
\<close>

definition release_previous :: "world \<Rightarrow> client \<Rightarrow> exn option \<times> client \<times> event list" where
  "release_previous w st =
     (case exit_stack st of
        None \<Rightarrow> (None, st, [])
      | Some cs \<Rightarrow> (aclose_out w, st\<lparr>exit_stack := Some []\<rparr>, [Aclose cs]))"

text \<open>
  The \<open>try\<close> block of \<open>_connect\<close>: the result (\<open>Inl\<close> the exception raised), the
  client, and the operations invoked.
\<close>

definition connect_try :: "world \<Rightarrow> client \<Rightarrow> (exn + ustr) \<times> client \<times> event list" where
  "connect_try w st =
     (case release_previous w st of
        (Some e, st1, tr1) \<Rightarrow> (Inl e, st1, tr1)
      | (None, st1, tr1) \<Rightarrow>
          let st2 = st1\<lparr>exit_stack := Some []\<rparr>;
              url = server_url st2;
              tr2 = tr1 @ [SseOpen url]
          in (case sse_client_out w url of
                Some e \<Rightarrow> (Inl e, st2, tr2)
              | None \<Rightarrow>
                  let st3 = st2\<lparr>exit_stack := Some [SseTransport url]\<rparr>;
                      tr3 = tr2 @ [SessionOpen]
                  in (case client_session_out w of
                        Some e \<Rightarrow> (Inl e, st3, tr3)
                      | None \<Rightarrow>
                          let st4 = st3\<lparr>exit_stack := Some [SessionCtx, SseTransport url],
                                        session := Some (ClientSession url)\<rparr>;
                              tr4 = tr3 @ [Initialize]
                          in (case initialize_out w of
                                Some e \<Rightarrow> (Inl e, st4, tr4)
                              | None \<Rightarrow>
                                  let tr5 = tr4 @ [ListTools]
                                  in (case list_tools_out w of
                                        Inl e \<Rightarrow> (Inl e, st4, tr5)
                                      | Inr ts \<Rightarrow>
                                          let st5 = st4\<lparr>tools := ts\<rparr>;
                                              st6 = st5\<lparr>connected := True\<rparr>;
                                              tool_names = map name (tools st6)
                                          in (Inr (connected_msg tool_names), st6, tr5))))))"

text \<open>\<open>_connect\<close>: the \<open>try\<close> block under its handler \<open>except Exception as e\<close>.\<close>

definition connect_coro :: "world \<Rightarrow> client \<Rightarrow> (exn + ustr) \<times> client \<times> event list" where
  "connect_coro w st =
     (case connect_try w st of
        (Inr m, st', tr) \<Rightarrow> (Inr m, st', tr)
      | (Inl e, st', tr) \<Rightarrow>
          if is_Exception e
          then (Inr (connection_failed_msg e), st'\<lparr>connected := False\<rparr>, tr)
          else (Inl e, st', tr))"

text \<open>\<open>connect\<close> runs \<open>_connect\<close> to completion on the event loop.\<close>

definition connect :: "world \<Rightarrow> client \<Rightarrow> (exn + ustr) \<times> client \<times> event list" where
  "connect w st = connect_coro w st"

text \<open>The clients a process can hold: \<open>get_weather\<close> assigns no field.\<close>

inductive reachable :: "client \<Rightarrow> bool" where
  reachable_init: "reachable init_client"
| reachable_connect: "reachable st \<Longrightarrow> connect w st = (r, st', tr) \<Longrightarrow> reachable st'"

section \<open>get_weather\<close>

definition not_connected_msg :: ustr where
  "not_connected_msg = cross_mark @ ascii '' Not connected to server. Click Connect first.''"

definition empty_location_msg :: ustr where
  "empty_location_msg =
     cross_mark @ ascii '' Please enter a location (e.g., '' @ [39] @ ascii ''Berlin, Germany'' @
     [39] @ ascii '')''"

definition tool_not_found_msg :: ustr where
  "tool_not_found_msg = cross_mark @ ascii '' Weather tool not found on server''"

definition no_content_msg :: ustr where
  "no_content_msg = cross_mark @ ascii '' No content received from server''"

definition failed_msg :: "exn \<Rightarrow> ustr" where
  "failed_msg e = cross_mark @ ascii '' Failed to get weather: '' @ exc_str e"

text \<open>The location: \<open>city\<close> and \<open>country\<close>.\<close>

definition parse_location :: "ustr \<Rightarrow> ustr \<times> ustr" where
  "parse_location location =
     (if 44 \<in> set location
      then (case split_once 44 location of (l, r) \<Rightarrow> (strip l, strip r))
      else (strip location, []))"

text \<open>\<open>next((tool for tool in self.tools if 'weather' in tool.name.lower()), None)\<close>.\<close>

definition find_weather_tool :: "pylib \<Rightarrow> tool list \<Rightarrow> tool option" where
  "find_weather_tool L ts =
     find (\<lambda>tool. str_contains (ascii ''weather'') (str_lower L (name tool))) ts"

subsection \<open>Extraction of the text\<close>

text \<open>The loop \<open>for content_item in result.content\<close>, on the text collected so far.\<close>

fun extract_items :: "pylib \<Rightarrow> ustr \<Rightarrow> pyobj list \<Rightarrow> ustr" where
  "extract_items L content_text [] = content_text"
| "extract_items L content_text (content_item # rest) =
     extract_items L
       (case obj_text content_item of
          Some t \<Rightarrow> content_text @ t
        | None \<Rightarrow>
            (case obj_content content_item of
               Some c \<Rightarrow> content_text @ py_str L c
             | None \<Rightarrow> content_text @ obj_str content_item))
       rest"

definition content_truthy :: "content \<Rightarrow> bool" where
  "content_truthy c = (case c of Items xs \<Rightarrow> xs \<noteq> [] | Single ob \<Rightarrow> obj_truthy ob)"

definition extract_content :: "pylib \<Rightarrow> call_result \<Rightarrow> ustr" where
  "extract_content L result =
     (case result of
        None \<Rightarrow> []
      | Some c \<Rightarrow>
          if content_truthy c
          then (case c of
                  Items xs \<Rightarrow> extract_items L [] xs
                | Single ob \<Rightarrow> (case obj_text ob of Some t \<Rightarrow> t | None \<Rightarrow> obj_str ob))
          else [])"

subsection \<open>Formatting of the text\<close>

text \<open>
  An f-string field \<open>{d.get(k, dflt)}\<close> with a string default. A parsed \<open>dict\<close> has
  each key once, so \<open>map_of\<close> is its lookup.
\<close>

definition get_field :: "pylib \<Rightarrow> (ustr \<times> pyval) list \<Rightarrow> ustr \<Rightarrow> ustr \<Rightarrow> ustr" where
  "get_field L d k dflt = (case map_of d k of Some v \<Rightarrow> py_str L v | None \<Rightarrow> dflt)"

definition temperature_key :: ustr where
  "temperature_key = ascii ''temperature ('' @ degree @ ascii ''C)''"

definition format_weather :: "pylib \<Rightarrow> (ustr \<times> pyval) list \<Rightarrow> (ustr \<times> pyval) list \<Rightarrow> ustr" where
  "format_weather L parsed weather =
     globe @ ascii '' **'' @ get_field L parsed (ascii ''location'') (ascii ''Unknown'') @
       ascii ''**'' @ nl @ nl @
     thermometer @ ascii '' Temperature: '' @
       get_field L weather (ascii ''temperature_celsius'') (ascii ''N/A'') @ degree @ ascii ''C'' @ nl @
     sun_cloud @ ascii '' Conditions: '' @
       get_field L weather (ascii ''weather_description'') (ascii ''N/A'') @ nl @
     dash_symbol @ ascii '' Wind: '' @
       get_field L weather (ascii ''wind_speed_kmh'') (ascii ''N/A'') @ ascii '' km/h'' @ nl @
     droplet @ ascii '' Humidity: '' @
       get_field L weather (ascii ''humidity_percent'') (ascii ''N/A'') @ ascii ''%'' @ nl"

definition format_original :: "pylib \<Rightarrow> (ustr \<times> pyval) list \<Rightarrow> ustr" where
  "format_original L parsed =
     globe @ ascii '' **'' @ get_field L parsed (ascii ''location'') (ascii ''Unknown'') @
       ascii ''**'' @ nl @ nl @
     thermometer @ ascii '' Temperature: '' @
       get_field L parsed temperature_key (ascii ''N/A'') @ degree @ ascii ''C'' @ nl @
     sun_cloud @ ascii '' Weather Code: '' @
       get_field L parsed (ascii ''weather_code'') (ascii ''N/A'') @ nl @
     clock_one @ ascii '' Timezone: '' @
       get_field L parsed (ascii ''timezone'') (ascii ''N/A'') @ nl @
     clock_three @ ascii '' Local Time: '' @
       get_field L parsed (ascii ''local_time'') (ascii ''N/A'') @ nl"

definition fence :: ustr where
  "fence = [96, 96, 96]"

definition json_block :: "pylib \<Rightarrow> pyval \<Rightarrow> ustr" where
  "json_block L parsed =
     check_mark @ ascii '' Weather data:'' @ nl @ fence @ ascii ''json'' @ nl @
     json_dumps L parsed @ nl @ fence"

definition text_block :: "ustr \<Rightarrow> ustr" where
  "text_block content_text =
     check_mark @ ascii '' Weather data:'' @ nl @ fence @ nl @ content_text @ nl @ fence"

definition raw_result :: "ustr \<Rightarrow> ustr" where
  "raw_result content_text = check_mark @ ascii '' Raw result:'' @ nl @ content_text"

text \<open>
  The branch \<open>if isinstance(parsed, dict)\<close>. \<open>weather.get\<close> raises \<open>AttributeError\<close>
  when the value under \<open>current_weather\<close> is not a \<open>dict\<close>.
\<close>

definition format_dict :: "pylib \<Rightarrow> (ustr \<times> pyval) list \<Rightarrow> exn + ustr" where
  "format_dict L parsed =
     (case map_of parsed (ascii ''error'') of
        Some err \<Rightarrow> Inr (cross_mark @ ascii '' Error: '' @ py_str L err)
      | None \<Rightarrow>
          (case map_of parsed (ascii ''current_weather'') of
             Some weather \<Rightarrow>
               (case weather of
                  PDict wd \<Rightarrow> Inr (format_weather L parsed wd)
                | _ \<Rightarrow> Inl (no_attribute (type_name weather) (ascii ''get'')))
           | None \<Rightarrow>
               if map_of parsed temperature_key \<noteq> None
               then Inr (format_original L parsed)
               else Inr (json_block L (PDict parsed))))"

text \<open>
  The inner \<open>try\<close> with its handler \<open>except json.JSONDecodeError\<close>, and the
  \<open>return\<close> after it, which a parsed value that is not a \<open>dict\<close> reaches.
\<close>

definition format_content :: "pylib \<Rightarrow> ustr \<Rightarrow> exn + ustr" where
  "format_content L content_text =
     (case json_loads L content_text of
        Inl e \<Rightarrow> if exc_class e = JSONDecodeError then Inr (text_block content_text) else Inl e
      | Inr parsed \<Rightarrow>
          (case parsed of
             PDict d \<Rightarrow> format_dict L d
           | _ \<Rightarrow> Inr (raw_result content_text)))"

subsection \<open>The operation\<close>

text \<open>The \<open>try\<close> block of \<open>_get_weather\<close>: the result and the operations invoked.\<close>

definition get_weather_try :: "pylib \<Rightarrow> world \<Rightarrow> client \<Rightarrow> ustr \<Rightarrow> (exn + ustr) \<times> event list" where
  "get_weather_try L w st location =
     (case parse_location location of
        (city, country) \<Rightarrow>
          (case find_weather_tool L (tools st) of
             None \<Rightarrow> (Inr tool_not_found_msg, [])
           | Some weather_tool \<Rightarrow>
               let params = [(ascii ''city'', city), (ascii ''country'', country)]
               in (case session st of
                     None \<Rightarrow> (Inl (no_attribute (ascii ''NoneType'') (ascii ''call_tool'')), [])
                   | Some s \<Rightarrow>
                       let tr = [CallTool (name weather_tool) params]
                       in (case call_tool_out w (name weather_tool) params of
                             Inl e \<Rightarrow> (Inl e, tr)
                           | Inr result \<Rightarrow>
                               let content_text = extract_content L result
                               in if content_text = [] then (Inr no_content_msg, tr)
                                  else (format_content L content_text, tr)))))"

text \<open>\<open>_get_weather\<close>: the \<open>try\<close> block under its handler \<open>except Exception as e\<close>.\<close>

definition get_weather_coro :: "pylib \<Rightarrow> world \<Rightarrow> client \<Rightarrow> ustr \<Rightarrow> (exn + ustr) \<times> event list" where
  "get_weather_coro L w st location =
     (case get_weather_try L w st location of
        (Inr m, tr) \<Rightarrow> (Inr m, tr)
      | (Inl e, tr) \<Rightarrow> if is_Exception e then (Inr (failed_msg e), tr) else (Inl e, tr))"

definition get_weather :: "pylib \<Rightarrow> world \<Rightarrow> client \<Rightarrow> ustr \<Rightarrow> (exn + ustr) \<times> event list" where
  "get_weather L w st location =
     (if \<not> connected st then (Inr not_connected_msg, [])
      else if strip location = [] then (Inr empty_location_msg, [])
      else get_weather_coro L w st location)"

section \<open>Notions of the specification\<close>

text \<open>
  The failure of an execution of \<open>connect\<close>: the exception of the first operation that
  raises, among the release of the previous connection resource (when there is one),
  the opening of the transport, the opening of the session, the negotiation and the
  request of the tool list. \<open>None\<close> when every operation returns.
\<close>

definition connect_failure :: "world \<Rightarrow> client \<Rightarrow> exn option" where
  "connect_failure w st =
     (if exit_stack st \<noteq> None \<and> aclose_out w \<noteq> None then aclose_out w
      else if sse_client_out w (server_url st) \<noteq> None then sse_client_out w (server_url st)
      else if client_session_out w \<noteq> None then client_session_out w
      else if initialize_out w \<noteq> None then initialize_out w
      else (case list_tools_out w of Inl e \<Rightarrow> Some e | Inr ts \<Rightarrow> None))"

text \<open>
  The text fragment of one content item: its text field, or the string form of its
  nested content field when it has no text field, or its generic string representation
  when it has neither.
\<close>

definition fragment :: "pylib \<Rightarrow> pyobj \<Rightarrow> ustr" where
  "fragment L item =
     (case obj_text item of
        Some t \<Rightarrow> t
      | None \<Rightarrow> (case obj_content item of Some c \<Rightarrow> py_str L c | None \<Rightarrow> obj_str item))"

text \<open>A sub-field of the weather object, with "N/A" for a missing one.\<close>

definition sub_field :: "pylib \<Rightarrow> (ustr \<times> pyval) list \<Rightarrow> ustr \<Rightarrow> ustr" where
  "sub_field L weather k =
     (case map_of weather k of None \<Rightarrow> ascii ''N/A'' | Some v \<Rightarrow> py_str L v)"

section \<open>Concrete inputs\<close>

text \<open>
  The library at the inputs of the examples below, with the values CPython gives there:
  \<open>str.lower\<close> on ASCII strings, \<open>json.loads\<close> and \<open>json.dumps(v, indent=2)\<close> on
  the listed documents, \<open>repr\<close> on strings of printable ASCII characters without
  quotes or backslashes. The examples apply it to these inputs only.
\<close>

definition ascii_lower :: "ustr \<Rightarrow> ustr" where
  "ascii_lower s = map (\<lambda>c. if 65 \<le> c \<and> c \<le> 90 then c + 32 else c) s"

definition doc_weather :: ustr where
  \<open>doc_weather = ascii ''{"current_weather": {"temperature_celsius": 20}}''\<close>

definition val_weather :: pyval where
  "val_weather =
     PDict [(ascii ''current_weather'', PDict [(ascii ''temperature_celsius'', PInt 20)])]"

definition doc_error :: ustr where
  \<open>doc_error =
     ascii ''{"error": "rate limited", "current_weather": {"temperature_celsius": 20}}''\<close>

definition val_error :: pyval where
  "val_error =
     PDict [(ascii ''error'', PStr (ascii ''rate limited'')),
            (ascii ''current_weather'', PDict [(ascii ''temperature_celsius'', PInt 20)])]"

definition doc_list :: ustr where
  "doc_list = ascii ''[1, 2]''"

definition val_list :: pyval where
  "val_list = PList [PInt 1, PInt 2]"

definition doc_status :: ustr where
  \<open>doc_status = ascii ''{"status": "ok"}''\<close>

definition val_status :: pyval where
  "val_status = PDict [(ascii ''status'', PStr (ascii ''ok''))]"

definition dump_status :: ustr where
  \<open>dump_status = ascii ''{'' @ nl @ ascii ''  "status": "ok"'' @ nl @ ascii ''}''\<close>

definition doc_null :: ustr where
  \<open>doc_null = ascii ''{"current_weather": null}''\<close>

definition val_null :: pyval where
  "val_null = PDict [(ascii ''current_weather'', PNone)]"

definition sample_loads :: "ustr \<Rightarrow> exn + pyval" where
  "sample_loads s =
     (case map_of [(doc_weather, val_weather), (doc_error, val_error),
                   (doc_list, val_list), (doc_status, val_status), (doc_null, val_null)] s of
        Some v \<Rightarrow> Inr v
      | None \<Rightarrow> Inl (Exn JSONDecodeError (ascii ''Expecting value: line 1 column 1 (char 0)'')))"

definition sample_dumps :: "pyval \<Rightarrow> ustr" where
  "sample_dumps v = (if v = val_status then dump_status else [])"

definition sample_lib :: pylib where
  "sample_lib =
     \<lparr>str_lower = ascii_lower, json_loads = sample_loads, json_dumps = sample_dumps,
      str_repr = (\<lambda>s. [39] @ s @ [39])\<rparr>"

text \<open>
  An endpoint that answers every operation, advertising three tools, and the client
  after a first \<open>connect\<close> to it.
\<close>

definition sample_tools :: "tool list" where
  "sample_tools =
     [\<lparr>name = ascii ''geocode''\<rparr>, \<lparr>name = ascii ''Get_Weather''\<rparr>,
      \<lparr>name = ascii ''weather_forecast''\<rparr>]"

definition text_item :: "ustr \<Rightarrow> pyobj" where
  "text_item t =
     \<lparr>obj_text = Some t, obj_content = None,
      obj_str = ascii ''type='' @ [39] @ ascii ''text'' @ [39], obj_truthy = True\<rparr>"

definition ok_world :: world where
  "ok_world =
     \<lparr>aclose_out = None, sse_client_out = (\<lambda>url. None), client_session_out = None,
      initialize_out = None, list_tools_out = Inr sample_tools,
      call_tool_out = (\<lambda>tool_name params. Inr (Some (Items [text_item doc_weather])))\<rparr>"

definition connected_client :: client where
  "connected_client = fst (snd (connect ok_world init_client))"



text \<open>Endpoints on which the release, or the opening of the transport, raises.\<close>

definition close_error :: exn where
  "close_error =
     Exn OtherException
       (ascii ''Attempted to exit cancel scope in a different task than it was entered in'')"

definition aclose_fails_world :: world where
  "aclose_fails_world = ok_world\<lparr>aclose_out := Some close_error\<rparr>"

definition open_error :: exn where
  "open_error = Exn OtherException (ascii ''All connection attempts failed'')"

definition open_fails_world :: world where
  "open_fails_world = ok_world\<lparr>sse_client_out := (\<lambda>url. Some open_error)\<rparr>"

text \<open>
  An endpoint on which the opening of the transport is cancelled:
  \<open>asyncio.CancelledError\<close> derives from \<open>BaseException\<close> only, and its \<open>str\<close> is
  empty.
\<close>

definition cancelled_error :: exn where
  "cancelled_error = Exn NotException []"

definition cancel_world :: world where
  "cancel_world = ok_world\<lparr>sse_client_out := (\<lambda>url. Some cancelled_error)\<rparr>"

text \<open>Three content items: one with text, one with nested content, one with neither.\<close>

definition item_A :: pyobj where
  "item_A = text_item (ascii ''A'')"

definition item_B :: pyobj where
  "item_B =
     \<lparr>obj_text = None, obj_content = Some (PStr (ascii ''B'')),
      obj_str = ascii ''<Wrapper>'', obj_truthy = True\<rparr>"

definition item_C :: pyobj where
  "item_C =
     \<lparr>obj_text = None, obj_content = None, obj_str = ascii ''<Opaque>'', obj_truthy = True\<rparr>"

section \<open>Facts about the string operations\<close>

lemma strip_empty_iff: "strip s = [] \<longleftrightarrow> (\<forall>c\<in>set s. isspace c)"
proof
  assume "strip s = []"
  then have "\<forall>c\<in>set (dropWhile isspace s). isspace c"
    by (simp add: strip_def dropWhile_eq_Nil_conv)
  then have "dropWhile isspace s = []"
    by (metis dropWhile_eq_Nil_conv dropWhile_idem)
  then show "\<forall>c\<in>set s. isspace c"
    by (simp add: dropWhile_eq_Nil_conv)
next
  assume "\<forall>c\<in>set s. isspace c"
  then show "strip s = []" by (auto simp: strip_def dest: set_dropWhileD)
qed

lemma last_dropWhile: "dropWhile P xs \<noteq> [] \<Longrightarrow> last (dropWhile P xs) = last xs"
  by (induction xs) (auto split: if_splits)

text \<open>\<open>strip\<close> trims: it keeps a middle part, cuts white space only, and cuts all of it.\<close>

lemma strip_decomp:
  "\<exists>pre post. s = pre @ strip s @ post \<and> (\<forall>c\<in>set pre. isspace c) \<and> (\<forall>c\<in>set post. isspace c)"
proof -
  let ?a = "dropWhile isspace s"
  let ?b = "dropWhile isspace (rev ?a)"
  have 1: "s = takeWhile isspace s @ ?a" by simp
  have 2: "rev ?a = takeWhile isspace (rev ?a) @ ?b" by simp
  have 3: "?a = rev ?b @ rev (takeWhile isspace (rev ?a))"
    by (metis 2 rev_append rev_rev_ident)
  have "s = takeWhile isspace s @ strip s @ rev (takeWhile isspace (rev ?a))"
    using 1 3 by (simp add: strip_def)
  moreover have "\<forall>c\<in>set (takeWhile isspace s). isspace c"
    by (auto dest: set_takeWhileD)
  moreover have "\<forall>c\<in>set (rev (takeWhile isspace (rev ?a))). isspace c"
    by (auto dest: set_takeWhileD)
  ultimately show ?thesis by blast
qed

lemma strip_ends:
  assumes "strip s \<noteq> []"
  shows "\<not> isspace (hd (strip s)) \<and> \<not> isspace (last (strip s))"
proof -
  let ?a = "dropWhile isspace s"
  let ?b = "dropWhile isspace (rev ?a)"
  have b: "?b \<noteq> []" using assms by (simp add: strip_def)
  have a: "?a \<noteq> []"
  proof
    assume e: "?a = []"
    have "?b = []" unfolding e by simp
    with b show False by blast
  qed
  have "last (strip s) = hd ?b" using b by (simp add: strip_def last_rev)
  moreover have "\<not> isspace (hd ?b)" using b by (rule hd_dropWhile)
  moreover have "hd (strip s) = last ?b" using b by (simp add: strip_def hd_rev)
  moreover have "last ?b = last (rev ?a)" using b by (rule last_dropWhile)
  moreover have "last (rev ?a) = hd ?a" using a by (simp add: last_rev)
  moreover have "\<not> isspace (hd ?a)" using a by (rule hd_dropWhile)
  ultimately show ?thesis by simp
qed

lemma str_contains_iff: "str_contains sub s \<longleftrightarrow> (\<exists>pre post. s = pre @ sub @ post)"
proof (induction s)
  case Nil
  then show ?case by auto
next
  case (Cons c cs)
  show ?case
  proof
    assume "str_contains sub (c # cs)"
    then consider "take (length sub) (c # cs) = sub" | "str_contains sub cs" by auto
    then show "\<exists>pre post. c # cs = pre @ sub @ post"
    proof cases
      case 1
      then have "c # cs = [] @ sub @ drop (length sub) (c # cs)"
        by (metis append_Nil append_take_drop_id)
      then show ?thesis by blast
    next
      case 2
      then obtain pre post where "cs = pre @ sub @ post" using Cons.IH by blast
      then have "c # cs = (c # pre) @ sub @ post" by simp
      then show ?thesis by blast
    qed
  next
    assume "\<exists>pre post. c # cs = pre @ sub @ post"
    then obtain pre post where e: "c # cs = pre @ sub @ post" by blast
    show "str_contains sub (c # cs)"
    proof (cases pre)
      case Nil
      then have "take (length sub) (c # cs) = sub" using e by simp
      then show ?thesis by simp
    next
      case (Cons p ps)
      then have "cs = ps @ sub @ post" using e by simp
      then show ?thesis using Cons.IH by auto
    qed
  qed
qed

lemma split_once_first: "sep \<notin> set l \<Longrightarrow> split_once sep (l @ sep # r) = (l, r)"
proof -
  assume a: "sep \<notin> set l"
  then have 1: "takeWhile (\<lambda>c. c \<noteq> sep) (l @ sep # r) = l"
    by (induction l) auto
  from a have 2: "dropWhile (\<lambda>c. c \<noteq> sep) (l @ sep # r) = sep # r"
    by (induction l) auto
  show ?thesis by (simp add: split_once_def 1 2)
qed


lemma parse_Berlin: "parse_location (ascii ''Berlin'') = (ascii ''Berlin'', [])"
  by (simp add: parse_location_def strip_def isspace_def ascii_def)

section \<open>Facts about connect\<close>

lemmas connect_defs = connect_def connect_coro_def connect_try_def release_previous_def Let_def

text \<open>
  The \<open>try\<close> block raises exactly the failure of the execution; until then it has
  assigned neither \<open>tools\<close> nor \<open>connected\<close>, and it never resets \<open>session\<close>.
\<close>

lemma connect_try_fails:
  assumes "connect_failure w st = Some e"
  shows "\<exists>st' tr. connect_try w st = (Inl e, st', tr) \<and> tools st' = tools st \<and>
           connected st' = connected st \<and> (session st \<noteq> None \<longrightarrow> session st' \<noteq> None)"
  using assms
  by (auto simp: connect_try_def release_previous_def connect_failure_def Let_def
           split: option.splits sum.splits if_splits)

lemma connect_try_succeeds:
  assumes "connect_failure w st = None"
  shows "\<exists>ts st' tr. list_tools_out w = Inr ts \<and>
           connect_try w st = (Inr (connected_msg (map name ts)), st', tr) \<and>
           connected st' \<and> tools st' = ts \<and> session st' \<noteq> None"
  using assms
  by (auto simp: connect_try_def release_previous_def connect_failure_def Let_def
           split: option.splits sum.splits if_splits)

text \<open>Only an exception outside the class \<open>Exception\<close> leaves \<open>connect\<close>.\<close>

lemma connect_propagates:
  assumes "fst (connect w st) = Inl e"
  shows "connect_failure w st = Some e \<and> \<not> is_Exception e"
proof (cases "connect_failure w st")
  case None
  from connect_try_succeeds [OF None] assms show ?thesis
    by (auto simp: connect_def connect_coro_def)
next
  case (Some e')
  from connect_try_fails [OF Some] assms show ?thesis
    by (auto simp: connect_def connect_coro_def Some split: if_splits)
qed

lemma connect_tools_session:
  assumes "connect w st = (r, st', tr)" and "tools st \<noteq> [] \<longrightarrow> session st \<noteq> None"
  shows "tools st' \<noteq> [] \<longrightarrow> session st' \<noteq> None"
proof (cases "connect_failure w st")
  case None
  from connect_try_succeeds [OF None] assms show ?thesis
    by (auto simp: connect_def connect_coro_def)
next
  case (Some e)
  from connect_try_fails [OF Some] assms show ?thesis
    by (auto simp: connect_def connect_coro_def split: if_splits)
qed

text \<open>A client that holds tools holds the session they were listed on.\<close>

lemma reachable_session: "reachable st \<Longrightarrow> tools st \<noteq> [] \<longrightarrow> session st \<noteq> None"
proof (induction rule: reachable.induct)
  case reachable_init
  show ?case by (simp add: init_client_def)
next
  case (reachable_connect st w r st' tr)
  then show ?case using connect_tools_session by blast
qed

lemma connected_client_eq:
  "connected_client =
     \<lparr>session = Some (ClientSession (server_url init_client)), connected = True,
      tools = sample_tools,
      exit_stack = Some [SessionCtx, SseTransport (server_url init_client)],
      server_url = server_url init_client\<rparr>"
  by (simp add: connected_client_def connect_defs ok_world_def init_client_def)


lemma reachable_connected_client: "reachable connected_client"
proof -
  have "connect ok_world init_client =
          (fst (connect ok_world init_client), connected_client,
           snd (snd (connect ok_world init_client)))"
    by (simp add: connected_client_def)
  with reachable_init show ?thesis by (rule reachable_connect)
qed


lemma open_fails_failure: "connect_failure open_fails_world connected_client = Some open_error"
  by (simp add: connect_failure_def open_fails_world_def ok_world_def connected_client_eq)

lemma open_error_class: "is_Exception open_error"
  by (simp add: is_Exception_def open_error_def)

lemma cancel_failure: "connect_failure cancel_world connected_client = Some cancelled_error"
  by (simp add: connect_failure_def cancel_world_def ok_world_def connected_client_eq)

lemma cancel_connect:
  "connect cancel_world connected_client =
     (Inl cancelled_error, connected_client\<lparr>exit_stack := Some []\<rparr>,
      [Aclose [SessionCtx, SseTransport (server_url init_client)],
       SseOpen (server_url init_client)])"
  by (simp add: connected_client_eq connect_defs cancel_world_def ok_world_def
        cancelled_error_def is_Exception_def)

section \<open>Facts about get_weather\<close>

lemma coro_trace: "snd (get_weather_coro L w st location) = snd (get_weather_try L w st location)"
  by (simp add: get_weather_coro_def split: prod.splits sum.splits)

lemma try_calls_found_tool:
  assumes "find_weather_tool L (tools st) = Some t" and "session st \<noteq> None"
  shows "snd (get_weather_try L w st location) =
           [CallTool (name t) [(ascii ''city'', fst (parse_location location)),
                               (ascii ''country'', snd (parse_location location))]]"
  using assms
  by (auto simp: get_weather_try_def Let_def split: prod.splits option.splits sum.splits)

lemma find_weather_tool_in: "find_weather_tool L ts = Some t \<Longrightarrow> ts \<noteq> []"
  by (auto simp: find_weather_tool_def)

text \<open>A connected client with a location that is not blank runs \<open>_get_weather\<close>.\<close>

lemma get_weather_runs_coro:
  "connected st \<Longrightarrow> strip location \<noteq> [] \<Longrightarrow>
     get_weather L w st location = get_weather_coro L w st location"
  by (simp add: get_weather_def)

text \<open>
  What \<open>_get_weather\<close> returns once the tool has answered with some text: the
  formatted text, or the failure message when the formatting raises an \<open>Exception\<close>.
\<close>

lemma coro_formats_content:
  assumes "find_weather_tool L (tools st) = Some t" and "session st \<noteq> None"
    and "call_tool_out w (name t) [(ascii ''city'', fst (parse_location location)),
                                   (ascii ''country'', snd (parse_location location))] = Inr result"
    and "extract_content L result \<noteq> []"
  shows "fst (get_weather_coro L w st location) =
           (case format_content L (extract_content L result) of
              Inr m \<Rightarrow> Inr m
            | Inl e \<Rightarrow> if is_Exception e then Inr (failed_msg e) else Inl e)"
  using assms
  by (auto simp: get_weather_coro_def get_weather_try_def Let_def
           split: prod.splits option.splits sum.splits)

lemma extract_items_concat: "extract_items L acc xs = acc @ concat (map (fragment L) xs)"
  by (induction xs arbitrary: acc) (auto simp: fragment_def split: option.splits)

lemma lower_geocode: "str_lower sample_lib (ascii ''geocode'') = ascii ''geocode''"
  by (simp add: sample_lib_def ascii_lower_def ascii_def)

lemma lower_Get_Weather: "str_lower sample_lib (ascii ''Get_Weather'') = ascii ''get_weather''"
  by (simp add: sample_lib_def ascii_lower_def ascii_def)


lemma geocode_no_weather: "\<not> str_contains (ascii ''weather'') (ascii ''geocode'')"
  by (simp add: ascii_def)

lemma get_weather_has_weather: "str_contains (ascii ''weather'') (ascii ''get_weather'')"
  by (simp add: ascii_def)


lemma find_sample_tool:
  "find_weather_tool sample_lib (tools connected_client) = Some \<lparr>name = ascii ''Get_Weather''\<rparr>"
  by (simp add: find_weather_tool_def connected_client_eq sample_tools_def lower_geocode
        lower_Get_Weather geocode_no_weather get_weather_has_weather)

lemma loads_error: "json_loads sample_lib doc_error = Inr val_error"
  by (simp add: sample_lib_def sample_loads_def doc_error_def doc_weather_def ascii_def)

lemma loads_weather: "json_loads sample_lib doc_weather = Inr val_weather"
  by (simp add: sample_lib_def sample_loads_def)

lemma loads_list: "json_loads sample_lib doc_list = Inr (PList [PInt 1, PInt 2])"
  by (simp add: sample_lib_def sample_loads_def doc_list_def val_list_def doc_weather_def
        doc_error_def ascii_def)

lemma loads_status: "json_loads sample_lib doc_status = Inr val_status"
  by (simp add: sample_lib_def sample_loads_def doc_list_def doc_status_def doc_weather_def
        doc_error_def ascii_def)

lemma loads_null: "json_loads sample_lib doc_null = Inr val_null"
  by (simp add: sample_lib_def sample_loads_def doc_list_def doc_status_def doc_weather_def
        doc_error_def doc_null_def ascii_def)

section \<open>The claims\<close>

subsection \<open>C1: the precondition checks of get_weather\<close>

text \<open>
  C1, as amended. For every call of \<open>get_weather\<close> made while \<open>connected\<close> is false,
  the operation returns the not-connected message and invokes no operation of the
  transport. For every call made while \<open>connected\<close> is true whose location is empty or
  consists of white space only, it returns the empty-input message and invokes no
  operation of the transport.
\<close>

theorem get_weather_preconditions:
  "(\<not> connected st \<longrightarrow> get_weather L w st location = (Inr not_connected_msg, [])) \<and>
   (connected st \<and> (\<forall>c\<in>set location. isspace c) \<longrightarrow>
      get_weather L w st location = (Inr empty_location_msg, []))"
  by (simp add: get_weather_def strip_empty_iff)

theorem get_weather_preconditions_witness:
  "get_weather sample_lib ok_world init_client (ascii ''Berlin'') = (Inr not_connected_msg, []) \<and>
   get_weather sample_lib ok_world connected_client (ascii ''  '') = (Inr empty_location_msg, [])"
proof -
  have 1: "\<not> connected init_client" by (simp add: init_client_def)
  have 2: "connected connected_client" by (simp add: connected_client_eq)
  have 3: "\<forall>c\<in>set (ascii ''  ''). isspace c" by (simp add: ascii_def isspace_def)
  from 1 2 3
    get_weather_preconditions [of init_client sample_lib ok_world "ascii ''Berlin''"]
    get_weather_preconditions [of connected_client sample_lib ok_world "ascii ''  ''"]
  show ?thesis by blast
qed

text \<open>
  As stated, C1 promises the empty-input message for every blank location. The check
  of \<open>connected\<close> comes first: a client that never connected answers a blank location
  with the not-connected message.
\<close>

theorem blank_location_counterexample:
  "strip (ascii ''  '') = [] \<and>
   get_weather sample_lib ok_world init_client (ascii ''  '') = (Inr not_connected_msg, []) \<and>
   not_connected_msg \<noteq> empty_location_msg"
  by (simp add: get_weather_def init_client_def not_connected_msg_def empty_location_msg_def
        strip_def isspace_def ascii_def cross_mark_def)

subsection \<open>C2: a failure of connect is a returned message\<close>

text \<open>
  C2, as amended. For every execution of \<open>connect\<close> in which an operation raises an
  \<open>Exception\<close> (a network error, a negotiation error, a malformed response),
  \<open>connect\<close> sets \<open>connected\<close> to false and returns the cross mark, the words
  "Connection failed:" and the \<open>str\<close> of the exception: the exception does not reach
  the caller.
\<close>

theorem connect_failure_reported:
  assumes "connect_failure w st = Some e" and "is_Exception e"
  shows "\<exists>st' tr. connect w st =
           (Inr ([0x274C] @ ascii '' Connection failed: '' @ exc_str e), st', tr) \<and>
         \<not> connected st'"
proof -
  from connect_try_fails [OF assms(1)] obtain st1 tr
    where "connect_try w st = (Inl e, st1, tr)" by blast
  with assms(2)
  have "connect w st = (Inr (connection_failed_msg e), st1\<lparr>connected := False\<rparr>, tr)"
    by (simp add: connect_def connect_coro_def)
  then show ?thesis by (simp add: connection_failed_msg_def cross_mark_def)
qed

theorem connect_failure_reported_witness:
  "\<exists>st' tr. connect open_fails_world connected_client =
      (Inr ([0x274C] @ ascii '' Connection failed: '' @ ascii ''All connection attempts failed''),
       st', tr) \<and>
    \<not> connected st'"
  using connect_failure_reported [OF open_fails_failure open_error_class]
  by (simp add: open_error_def)

text \<open>
  As stated, C2 speaks of any failure. The handler is \<open>except Exception\<close>: when the
  opening of the transport is cancelled on a connected client, the exception reaches the
  caller of \<open>connect\<close> and \<open>connected\<close> stays true.
\<close>

theorem cancelled_connect_counterexample:
  "connect_failure cancel_world connected_client = Some cancelled_error \<and>
   fst (connect cancel_world connected_client) = Inl cancelled_error \<and>
   connected (fst (snd (connect cancel_world connected_client)))"
proof -
  have "connected (connected_client\<lparr>exit_stack := Some []\<rparr>)"
    by (simp add: connected_client_eq)
  then show ?thesis by (simp add: cancel_failure cancel_connect)
qed

subsection \<open>C3: the release of the previous connection\<close>

text \<open>
  C3, as amended. For every execution of \<open>connect\<close> where a previous connection
  resource exists, the release of that resource is the first operation invoked. When
  the release returns, the opening of the new connection is the next operation. When
  the release raises an \<open>Exception\<close>, \<open>connect\<close> invokes no further operation: it
  opens no new connection, leaves \<open>connected\<close> false and returns the connection-failed
  message of that exception.
\<close>

theorem connect_releases_first:
  assumes "exit_stack st = Some cs"
  shows "(\<exists>tr. snd (snd (connect w st)) = Aclose cs # tr) \<and>
         (aclose_out w = None \<longrightarrow>
            (\<exists>tr. snd (snd (connect w st)) = Aclose cs # SseOpen (server_url st) # tr)) \<and>
         (\<forall>e. aclose_out w = Some e \<and> is_Exception e \<longrightarrow>
            connect w st =
              (Inr (connection_failed_msg e), st\<lparr>exit_stack := Some [], connected := False\<rparr>,
               [Aclose cs]))"
  using assms
  by (auto simp: connect_defs split: option.splits sum.splits)

theorem connect_releases_first_witness:
  "(\<exists>tr. snd (snd (connect ok_world connected_client)) =
      Aclose [SessionCtx, SseTransport (server_url init_client)] #
      SseOpen (server_url init_client) # tr) \<and>
   connect aclose_fails_world connected_client =
     (Inr (connection_failed_msg close_error),
      connected_client\<lparr>exit_stack := Some [], connected := False\<rparr>,
      [Aclose [SessionCtx, SseTransport (server_url init_client)]])"
proof -
  have 1: "exit_stack connected_client = Some [SessionCtx, SseTransport (server_url init_client)]"
    by (simp add: connected_client_eq)
  have 2: "aclose_out ok_world = None" by (simp add: ok_world_def)
  have 3: "aclose_out aclose_fails_world = Some close_error \<and> is_Exception close_error"
    by (simp add: aclose_fails_world_def close_error_def is_Exception_def)
  have 4: "server_url connected_client = server_url init_client"
    by (simp add: connected_client_eq)
  from connect_releases_first [OF 1, of ok_world] 2 4
  have a: "\<exists>tr. snd (snd (connect ok_world connected_client)) =
      Aclose [SessionCtx, SseTransport (server_url init_client)] #
      SseOpen (server_url init_client) # tr"
    by simp
  from connect_releases_first [OF 1, of aclose_fails_world] 3
  have b: "connect aclose_fails_world connected_client =
     (Inr (connection_failed_msg close_error),
      connected_client\<lparr>exit_stack := Some [], connected := False\<rparr>,
      [Aclose [SessionCtx, SseTransport (server_url init_client)]])"
    by blast
  from a b show ?thesis by blast
qed

text \<open>
  As stated, C3 promises that a failing release does not keep the new connection from
  being opened. The release is awaited inside the \<open>try\<close> block, so its exception
  ends the execution: the only operation invoked is the release.
\<close>

theorem release_failure_counterexample:
  "exit_stack connected_client = Some [SessionCtx, SseTransport (server_url init_client)] \<and>
   aclose_out aclose_fails_world = Some close_error \<and>
   snd (snd (connect aclose_fails_world connected_client)) =
     [Aclose [SessionCtx, SseTransport (server_url init_client)]] \<and>
   fst (connect aclose_fails_world connected_client) = Inr (connection_failed_msg close_error)"
  by (simp add: connected_client_eq connect_defs aclose_fails_world_def ok_world_def
        close_error_def is_Exception_def)

subsection \<open>C4: the parsing of the location\<close>

text \<open>
  C4. A location that contains a comma is split at its first comma: the city is the
  part before it and the country the part after it, both stripped of white space. For
  a location without a comma, the city is the stripped location and the country is the
  empty string.
\<close>

theorem parse_location_spec:
  "(44 \<notin> set l \<longrightarrow> parse_location (l @ 44 # r) = (strip l, strip r)) \<and>
   (44 \<notin> set location \<longrightarrow> parse_location location = (strip location, []))"
  by (simp add: parse_location_def split_once_first)

theorem parse_location_spec_witness:
  "parse_location (ascii ''New York , USA'') = (ascii ''New York'', ascii ''USA'') \<and>
   parse_location (ascii '' Berlin '') = (ascii ''Berlin'', [])"
proof -
  have 1: "44 \<notin> set (ascii ''New York '')" by (simp add: ascii_def)
  have 2: "44 \<notin> set (ascii '' Berlin '')" by (simp add: ascii_def)
  have 3: "ascii ''New York , USA'' = ascii ''New York '' @ 44 # ascii '' USA''"
    by (simp add: ascii_def)
  have 4: "strip (ascii ''New York '') = ascii ''New York''"
    by (simp add: strip_def isspace_def ascii_def)
  have 5: "strip (ascii '' USA'') = ascii ''USA''"
    by (simp add: strip_def isspace_def ascii_def)
  have 6: "strip (ascii '' Berlin '') = ascii ''Berlin''"
    by (simp add: strip_def isspace_def ascii_def)
  from 1 2 parse_location_spec [of "ascii ''New York ''" "ascii '' USA''" "ascii '' Berlin ''"]
  have "parse_location (ascii ''New York '' @ 44 # ascii '' USA'') =
          (strip (ascii ''New York ''), strip (ascii '' USA'')) \<and>
        parse_location (ascii '' Berlin '') = (strip (ascii '' Berlin ''), [])"
    by blast
  then show ?thesis by (simp only: 3 4 5 6)
qed

subsection \<open>C6: the extraction of the text\<close>

text \<open>
  C6. For every result whose content is a sequence of items, the extracted text is the
  concatenation, in order, of the fragments of the items: the text field of an item, or
  the string form of its nested content field when it has no text field, or its own
  string form when it has neither. For the three items with text "A", with nested
  content "B" and with neither, it is "A" + "B" + \<open>str\<close> of the third.
\<close>

theorem extract_content_sequence:
  "extract_content L (Some (Items xs)) = concat (map (fragment L) xs)"
  by (cases xs) (simp_all add: extract_content_def content_truthy_def extract_items_concat)

theorem extract_content_sequence_witness:
  "extract_content sample_lib (Some (Items [item_A, item_B, item_C])) =
     ascii ''A'' @ ascii ''B'' @ obj_str item_C"
  using extract_content_sequence [of sample_lib "[item_A, item_B, item_C]"]
  by (simp add: fragment_def item_A_def item_B_def item_C_def text_item_def py_str_def)

subsection \<open>C5: a payload with an error key\<close>

text \<open>
  C5. For every extracted payload that parses as a JSON object with an "error" key, the
  result is the error message built from the value of that key, whatever else the
  object holds: no weather field is formatted, also when "current_weather" is present.
\<close>

theorem error_key_first:
  assumes "json_loads L content_text = Inr (PDict parsed)"
    and "map_of parsed (ascii ''error'') = Some err"
  shows "format_content L content_text = Inr (cross_mark @ ascii '' Error: '' @ py_str L err)"
  using assms by (simp add: format_content_def format_dict_def)

theorem error_key_first_witness:
  "map_of [(ascii ''error'', PStr (ascii ''rate limited'')),
           (ascii ''current_weather'', PDict [(ascii ''temperature_celsius'', PInt 20)])]
     (ascii ''current_weather'') \<noteq> None \<and>
   format_content sample_lib doc_error = Inr (cross_mark @ ascii '' Error: '' @ ascii ''rate limited'')"
proof -
  have 2: "map_of [(ascii ''error'', PStr (ascii ''rate limited'')),
           (ascii ''current_weather'', PDict [(ascii ''temperature_celsius'', PInt 20)])]
          (ascii ''error'') = Some (PStr (ascii ''rate limited''))"
    by simp
  have 3: "map_of [(ascii ''error'', PStr (ascii ''rate limited'')),
           (ascii ''current_weather'', PDict [(ascii ''temperature_celsius'', PInt 20)])]
     (ascii ''current_weather'') \<noteq> None"
    by (simp add: ascii_def)
  from error_key_first [OF loads_error [unfolded val_error_def] 2] 3 show ?thesis
    by (simp add: py_str_def)
qed

subsection \<open>C7: a payload with a current_weather object\<close>

text \<open>
  C7. For every extracted payload that parses as a JSON object without an "error" key
  whose "current_weather" is an object, the result is the summary of five lines:
  location, temperature, description, wind and humidity, with "N/A" for each sub-field
  that the weather object lacks. For \<open>{"current_weather": {"temperature_celsius": 20}}\<close>
  it shows 20 degrees and "N/A" for the description, the wind and the humidity.
\<close>

theorem current_weather_summary:
  assumes "json_loads L content_text = Inr (PDict parsed)"
    and "map_of parsed (ascii ''error'') = None"
    and "map_of parsed (ascii ''current_weather'') = Some (PDict weather)"
  shows "format_content L content_text =
     Inr (globe @ ascii '' **'' @
            (case map_of parsed (ascii ''location'') of
               None \<Rightarrow> ascii ''Unknown'' | Some v \<Rightarrow> py_str L v) @ ascii ''**'' @ nl @ nl @
          thermometer @ ascii '' Temperature: '' @
            sub_field L weather (ascii ''temperature_celsius'') @ degree @ ascii ''C'' @ nl @
          sun_cloud @ ascii '' Conditions: '' @
            sub_field L weather (ascii ''weather_description'') @ nl @
          dash_symbol @ ascii '' Wind: '' @
            sub_field L weather (ascii ''wind_speed_kmh'') @ ascii '' km/h'' @ nl @
          droplet @ ascii '' Humidity: '' @
            sub_field L weather (ascii ''humidity_percent'') @ ascii ''%'' @ nl)"
  using assms
  by (simp add: format_content_def format_dict_def format_weather_def get_field_def sub_field_def
           split: option.splits)

theorem current_weather_summary_witness:
  "format_content sample_lib doc_weather =
     Inr (globe @ ascii '' **'' @ ascii ''Unknown'' @ ascii ''**'' @ nl @ nl @
          thermometer @ ascii '' Temperature: '' @ ascii ''20'' @ degree @ ascii ''C'' @ nl @
          sun_cloud @ ascii '' Conditions: '' @ ascii ''N/A'' @ nl @
          dash_symbol @ ascii '' Wind: '' @ ascii ''N/A'' @ ascii '' km/h'' @ nl @
          droplet @ ascii '' Humidity: '' @ ascii ''N/A'' @ ascii ''%'' @ nl)"
proof -
  let ?w = "[(ascii ''temperature_celsius'', PInt 20)]"
  let ?p = "[(ascii ''current_weather'', PDict ?w)]"
  have 2: "map_of ?p (ascii ''error'') = None"
    by (simp add: ascii_def)
  have 3: "map_of ?p (ascii ''current_weather'') = Some (PDict ?w)"
    by simp
  have 4: "map_of ?p (ascii ''location'') = None"
    by (simp add: ascii_def)
  have 5: "sub_field sample_lib ?w (ascii ''temperature_celsius'') = ascii ''20''"
    by (simp add: sub_field_def py_str_def str_int_def digits.simps) (simp add: ascii_def)
  have 6: "sub_field sample_lib ?w (ascii ''weather_description'') = ascii ''N/A''"
    by (simp add: sub_field_def) (simp add: ascii_def)
  have 7: "sub_field sample_lib ?w (ascii ''wind_speed_kmh'') = ascii ''N/A''"
    by (simp add: sub_field_def) (simp add: ascii_def)
  have 8: "sub_field sample_lib ?w (ascii ''humidity_percent'') = ascii ''N/A''"
    by (simp add: sub_field_def) (simp add: ascii_def)
  from current_weather_summary [OF loads_weather [unfolded val_weather_def] 2 3]
  show ?thesis by (simp only: 4 5 6 7 8 option.case)
qed

subsection \<open>C8: the choice of the weather tool\<close>



subsection \<open>C9: a payload of no known shape\<close>

text \<open>
  C9, as amended. For every extracted payload that parses as a JSON object with none of
  the keys "error", "current_weather" and "temperature (\<degree>C)", the result is the
  parsed value, pretty-printed, inside a code block marked \<open>json\<close>. For every payload
  that parses to a JSON value that is not an object (an array, a number, a string), the
  result is the extracted text itself after the raw-result heading, without a code
  block.
\<close>

theorem unshaped_json:
  assumes "json_loads L content_text = Inr parsed"
  shows "(\<forall>d. parsed = PDict d \<and> map_of d (ascii ''error'') = None \<and>
               map_of d (ascii ''current_weather'') = None \<and> map_of d temperature_key = None \<longrightarrow>
            format_content L content_text =
              Inr (check_mark @ ascii '' Weather data:'' @ nl @ fence @ ascii ''json'' @ nl @
                   json_dumps L parsed @ nl @ fence)) \<and>
         ((\<forall>d. parsed \<noteq> PDict d) \<longrightarrow>
            format_content L content_text =
              Inr (check_mark @ ascii '' Raw result:'' @ nl @ content_text))"
  using assms
  by (auto simp: format_content_def format_dict_def json_block_def raw_result_def
           split: pyval.splits)

theorem unshaped_json_witness:
  "format_content sample_lib doc_status =
     Inr (check_mark @ ascii '' Weather data:'' @ nl @ fence @ ascii ''json'' @ nl @
          dump_status @ nl @ fence) \<and>
   format_content sample_lib doc_list = Inr (check_mark @ ascii '' Raw result:'' @ nl @ doc_list)"
proof -
  have 1: "map_of [(ascii ''status'', PStr (ascii ''ok''))] (ascii ''error'') = None"
    by (simp add: ascii_def)
  have 2: "map_of [(ascii ''status'', PStr (ascii ''ok''))] (ascii ''current_weather'') = None"
    by (simp add: ascii_def)
  have 3: "map_of [(ascii ''status'', PStr (ascii ''ok''))] temperature_key = None"
    by (simp add: ascii_def temperature_key_def)
  have 4: "json_dumps sample_lib val_status = dump_status"
    by (simp add: sample_lib_def sample_dumps_def)
  from unshaped_json [OF loads_status] 1 2 3
  have a: "format_content sample_lib doc_status =
     Inr (check_mark @ ascii '' Weather data:'' @ nl @ fence @ ascii ''json'' @ nl @
          json_dumps sample_lib val_status @ nl @ fence)"
    by (simp add: val_status_def)
  from unshaped_json [OF loads_list]
  have b: "format_content sample_lib doc_list =
     Inr (check_mark @ ascii '' Raw result:'' @ nl @ doc_list)"
    by simp
  from a b 4 show ?thesis by simp
qed

text \<open>
  As stated, C9 promises the pretty-printed code block for every payload that matches
  none of the three shapes. The branches are under \<open>isinstance(parsed, dict)\<close>: the
  array \<open>[1, 2]\<close> comes back as raw text. And the branches test the presence of a
  key, not the shape of its value: the object \<open>{"current_weather": null}\<close> has no
  nested weather object, yet it takes the weather branch, where \<open>weather.get\<close> raises
  \<open>AttributeError\<close>.
\<close>

theorem json_array_counterexample:
  "json_loads sample_lib doc_list = Inr (PList [PInt 1, PInt 2]) \<and>
   format_content sample_lib doc_list = Inr (check_mark @ ascii '' Raw result:'' @ nl @ doc_list) \<and>
   format_content sample_lib doc_list \<noteq>
     Inr (check_mark @ ascii '' Weather data:'' @ nl @ fence @ ascii ''json'' @ nl @
          json_dumps sample_lib (PList [PInt 1, PInt 2]) @ nl @ fence) \<and>
   json_loads sample_lib doc_null = Inr (PDict [(ascii ''current_weather'', PNone)]) \<and>
   format_content sample_lib doc_null = Inl (no_attribute (ascii ''NoneType'') (ascii ''get''))"
  by (simp add: loads_list loads_null val_null_def format_content_def format_dict_def
        raw_result_def check_mark_def)
    (simp add: ascii_def)

subsection \<open>C10: the tool list after a failed connect\<close>

text \<open>
  C10, as amended. Every execution of \<open>connect\<close> in which an operation raises an
  \<open>Exception\<close> leaves the cached tool list as it was and \<open>connected\<close> false. The
  list is out of reach of the transport only through the test of \<open>connected\<close> in
  \<open>get_weather\<close>, which answers with the not-connected message and invokes nothing:
  \<open>_get_weather\<close> itself, run on the client after the failure, still calls the weather
  tool of the old list.
\<close>

theorem failed_connect_keeps_tools:
  assumes "reachable st" and "connect_failure w st = Some e" and "is_Exception e"
  shows "\<exists>st' tr. connect w st =
             (Inr ([0x274C] @ ascii '' Connection failed: '' @ exc_str e), st', tr) \<and>
           tools st' = tools st \<and> \<not> connected st' \<and>
           get_weather L w' st' location = (Inr not_connected_msg, []) \<and>
           (find_weather_tool L (tools st) = Some t \<longrightarrow>
              snd (get_weather_coro L w' st' location) =
                [CallTool (name t) [(ascii ''city'', fst (parse_location location)),
                                    (ascii ''country'', snd (parse_location location))]])"
proof -
  from connect_try_fails [OF assms(2)] obtain st1 tr
    where t: "connect_try w st = (Inl e, st1, tr)" and k: "tools st1 = tools st"
      and s: "session st \<noteq> None \<longrightarrow> session st1 \<noteq> None"
    by blast
  let ?st' = "st1\<lparr>connected := False\<rparr>"
  from t assms(3)
  have c: "connect w st =
             (Inr ([0x274C] @ ascii '' Connection failed: '' @ exc_str e), ?st', tr)"
    by (simp add: connect_def connect_coro_def connection_failed_msg_def cross_mark_def)
  have g: "get_weather L w' ?st' location = (Inr not_connected_msg, [])"
    by (simp add: get_weather_def)
  have u: "find_weather_tool L (tools st) = Some t \<longrightarrow>
              snd (get_weather_coro L w' ?st' location) =
                [CallTool (name t) [(ascii ''city'', fst (parse_location location)),
                                    (ascii ''country'', snd (parse_location location))]]"
  proof
    assume f: "find_weather_tool L (tools st) = Some t"
    then have "tools st \<noteq> []" by (rule find_weather_tool_in)
    with assms(1) have "session st \<noteq> None" using reachable_session by blast
    with s have s': "session ?st' \<noteq> None" by simp
    from f k have f': "find_weather_tool L (tools ?st') = Some t" by simp
    show "snd (get_weather_coro L w' ?st' location) =
                [CallTool (name t) [(ascii ''city'', fst (parse_location location)),
                                    (ascii ''country'', snd (parse_location location))]]"
      by (simp only: coro_trace try_calls_found_tool [OF f' s'])
  qed
  from c k g u show ?thesis by auto
qed

theorem failed_connect_keeps_tools_witness:
  "\<exists>st' tr. connect open_fails_world connected_client =
        (Inr ([0x274C] @ ascii '' Connection failed: '' @
              ascii ''All connection attempts failed''), st', tr) \<and>
      tools st' = tools connected_client \<and> \<not> connected st' \<and>
      get_weather sample_lib ok_world st' (ascii ''Berlin'') = (Inr not_connected_msg, []) \<and>
      snd (get_weather_coro sample_lib ok_world st' (ascii ''Berlin'')) =
        [CallTool (ascii ''Get_Weather'') [(ascii ''city'', ascii ''Berlin''), (ascii ''country'', [])]]"
  using failed_connect_keeps_tools [OF reachable_connected_client open_fails_failure
      open_error_class, of sample_lib ok_world "ascii ''Berlin''" "\<lparr>name = ascii ''Get_Weather''\<rparr>"]
    find_sample_tool parse_Berlin
  by (simp add: open_error_def)

text \<open>
  As stated, C10 speaks of every failing execution. When the opening of the transport is
  cancelled on a connected client, the exception passes the handler: the tool list is
  kept, but \<open>connected\<close> stays true, and the next \<open>get_weather\<close> calls the weather
  tool of the old list.
\<close>

theorem cancelled_connect_stale_tools_counterexample:
  "connect_failure cancel_world connected_client = Some cancelled_error \<and>
   tools (fst (snd (connect cancel_world connected_client))) = tools connected_client \<and>
   connected (fst (snd (connect cancel_world connected_client))) \<and>
   snd (get_weather sample_lib ok_world (fst (snd (connect cancel_world connected_client)))
          (ascii ''Berlin'')) =
     [CallTool (ascii ''Get_Weather'') [(ascii ''city'', ascii ''Berlin''), (ascii ''country'', [])]]"
proof -
  let ?st = "connected_client\<lparr>exit_stack := Some []\<rparr>"
  have 1: "fst (snd (connect cancel_world connected_client)) = ?st"
    by (simp add: cancel_connect)
  have 2: "connected ?st" by (simp add: connected_client_eq)
  have 3: "strip (ascii ''Berlin'') \<noteq> []"
    by (simp add: strip_def isspace_def ascii_def)
  have 4: "find_weather_tool sample_lib (tools ?st) = Some \<lparr>name = ascii ''Get_Weather''\<rparr>"
    using find_sample_tool by simp
  have 5: "session ?st \<noteq> None" by (simp add: connected_client_eq)
  have "snd (get_weather sample_lib ok_world ?st (ascii ''Berlin'')) =
     [CallTool (ascii ''Get_Weather'') [(ascii ''city'', ascii ''Berlin''), (ascii ''country'', [])]]"
    by (simp add: get_weather_runs_coro [OF 2 3] coro_trace try_calls_found_tool [OF 4 5]
          parse_Berlin)
  with 2 show ?thesis by (simp only: 1 cancel_failure) simp
qed

end
